theory Spec2Isabelle
  imports Main "HOL-Library.Word"
begin

unbundle bit_operations_syntax

section \<open>Python values handled by the report generator\<close>

text \<open>
  \<open>search_issues\<close> is called with \<open>json_result=True\<close>, so every field value is a
  decoded JSON value: \<open>None\<close>, a \<open>bool\<close>, an \<open>int\<close>, a \<open>float\<close>, a \<open>str\<close>,
  a \<open>list\<close> or a \<open>dict\<close> with string keys. A float is its IEEE 754 binary64 bit
  pattern; a dict is an association list in insertion order.
\<close>

datatype pyval =
    PNone
  | PBool bool
  | PInt int
  | PFloat "64 word"
  | PStr string
  | PList "pyval list"
  | PDict "(string \<times> pyval) list"

datatype pytype = TNoneType | TBool | TInt | TFloat | TStr | TList | TDict

text \<open>\<open>type(v)\<close>: the exact class of a value, so \<open>type(True)\<close> is \<open>bool\<close>, not \<open>int\<close>.\<close>

fun py_type :: "pyval \<Rightarrow> pytype" where
  "py_type PNone = TNoneType"
| "py_type (PBool b) = TBool"
| "py_type (PInt i) = TInt"
| "py_type (PFloat f) = TFloat"
| "py_type (PStr s) = TStr"
| "py_type (PList xs) = TList"
| "py_type (PDict kvs) = TDict"

text \<open>
  Exceptions. \<open>Unsupported v\<close> is the \<open>Exception\<close> raised by \<open>extract_value\<close>, whose
  message is formatted from the field \<open>v\<close>; \<open>TypeError v\<close> is raised by \<open>str.join\<close>
  on the first item \<open>v\<close> that is not a \<open>str\<close>, and by the library on hashing the
  unhashable group key \<open>v\<close>; \<open>KeyError k\<close> by a subscript with the absent key \<open>k\<close>;
  \<open>ValueError c\<close> by the library on inserting a column \<open>c\<close> that is already there;
  \<open>LibraryError n\<close> is any other exception of the library, by its name.
\<close>

datatype error =
  Unsupported pyval | TypeError pyval | KeyError string | ValueError string | LibraryError string

text \<open>Truth value testing: \<open>None\<close>, \<open>False\<close>, zero and empty containers are false.\<close>

fun truthy :: "pyval \<Rightarrow> bool" where
  "truthy PNone = False"
| "truthy (PBool b) = b"
| "truthy (PInt i) = (i \<noteq> 0)"
| "truthy (PFloat f) = (f AND 0x7FFFFFFFFFFFFFFF \<noteq> 0)"
| "truthy (PStr s) = (s \<noteq> [])"
| "truthy (PList xs) = (xs \<noteq> [])"
| "truthy (PDict kvs) = (kvs \<noteq> [])"

text \<open>The items of a dict or list value (empty for a value of another type).\<close>

fun dict_items :: "pyval \<Rightarrow> (string \<times> pyval) list" where
  "dict_items (PDict kvs) = kvs"
| "dict_items _ = []"

fun list_items :: "pyval \<Rightarrow> pyval list" where
  "list_items (PList xs) = xs"
| "list_items _ = []"

text \<open>\<open>d.get(k)\<close> gives \<open>None\<close> for an absent key; \<open>d[k]\<close> raises \<open>KeyError\<close>.\<close>

definition dict_get :: "pyval \<Rightarrow> string \<Rightarrow> pyval" where
  "dict_get d k = (case map_of (dict_items d) k of None \<Rightarrow> PNone | Some v \<Rightarrow> v)"

definition dict_index :: "pyval \<Rightarrow> string \<Rightarrow> error + pyval" where
  "dict_index d k = (case map_of (dict_items d) k of None \<Rightarrow> Inl (KeyError k) | Some v \<Rightarrow> Inr v)"

text \<open>
  \<open>sep.join(items)\<close>: every item must be a \<open>str\<close>; the first one that is not raises
  \<open>TypeError\<close>.
\<close>

fun str_items :: "pyval list \<Rightarrow> error + string list" where
  "str_items [] = Inr []"
| "str_items (PStr s # vs) =
     (case str_items vs of Inl e \<Rightarrow> Inl e | Inr ss \<Rightarrow> Inr (s # ss))"
| "str_items (v # vs) = Inl (TypeError v)"

fun intersperse :: "string \<Rightarrow> string list \<Rightarrow> string" where
  "intersperse sep [] = []"
| "intersperse sep [s] = s"
| "intersperse sep (s # t # ss) = s @ sep @ intersperse sep (t # ss)"

definition str_join :: "string \<Rightarrow> pyval list \<Rightarrow> error + pyval" where
  "str_join sep vs =
     (case str_items vs of Inl e \<Rightarrow> Inl e | Inr ss \<Rightarrow> Inr (PStr (intersperse sep ss)))"

section \<open>\<open>extract_value\<close>\<close>

text \<open>
  The nested function of \<open>generate_dataframes_by_jql\<close>, branch by branch. In the
  \<open>None\<close> branch the statement is the bare expression \<open>'N/A'\<close>: it is evaluated and
  dropped, control leaves the \<open>if\<close> chain and the function ends without a \<open>return\<close>,
  so the call yields \<open>None\<close>. The list comprehension of the list branch is
  \<open>extract_values\<close>: the elements are extracted from left to right and the first
  exception leaves the comprehension.
\<close>

function extract_value :: "pyval \<Rightarrow> error + pyval"
  and extract_values :: "pyval list \<Rightarrow> error + pyval list" where
  "extract_value field =
     (if field = PNone then Inr PNone
      else if py_type field \<in> set [TStr, TInt, TFloat] then Inr field
      else if py_type field = TDict \<and> truthy (dict_get field ''value'') then
        dict_index field ''value''
      else if py_type field = TDict \<and> truthy (dict_get field ''name'') then
        dict_index field ''name''
      else if py_type field = TList then
        (case extract_values (list_items field) of
           Inl e \<Rightarrow> Inl e
         | Inr rs \<Rightarrow> str_join '', '' rs)
      else Inl (Unsupported field))"
| "extract_values [] = Inr []"
| "extract_values (i # rest) =
     (case extract_value i of
        Inl e \<Rightarrow> Inl e
      | Inr r \<Rightarrow> (case extract_values rest of Inl e \<Rightarrow> Inl e | Inr rs \<Rightarrow> Inr (r # rs)))"
  by pat_completeness auto
termination
proof (relation "measure (\<lambda>a. case a of Inl v \<Rightarrow> 2 * size v | Inr vs \<Rightarrow> 2 * size_list size vs + 1)")
  show "wf (measure (\<lambda>a. case a of Inl v \<Rightarrow> 2 * size v | Inr vs \<Rightarrow> 2 * size_list size vs + 1))"
    by simp
next
  fix field :: pyval
  assume "py_type field = TList"
  then obtain xs where "field = PList xs"
    by (cases field) simp_all
  then show "(Inr (list_items field), Inl field)
      \<in> measure (\<lambda>a. case a of Inl v \<Rightarrow> 2 * size v | Inr vs \<Rightarrow> 2 * size_list size vs + 1)"
    by simp
next
  fix i :: pyval and rest :: "pyval list"
  show "(Inl i, Inr (i # rest))
      \<in> measure (\<lambda>a. case a of Inl v \<Rightarrow> 2 * size v | Inr vs \<Rightarrow> 2 * size_list size vs + 1)"
    by simp
next
  fix i :: pyval and rest :: "pyval list"
  show "(Inr rest, Inr (i # rest))
      \<in> measure (\<lambda>a. case a of Inl v \<Rightarrow> 2 * size v | Inr vs \<Rightarrow> 2 * size_list size vs + 1)"
    by simp
qed


section \<open>Rows and the \<open>DataFrame\<close>\<close>

text \<open>
  A row is the dict built by the comprehension in \<open>generate_dataframes_by_jql\<close>:
  display name to extracted value, in insertion order. Storing under a key that is
  already there replaces the value and keeps the key's place.
\<close>

type_synonym row = "(string \<times> pyval) list"

fun dict_set :: "(string \<times> 'v) list \<Rightarrow> string \<Rightarrow> 'v \<Rightarrow> (string \<times> 'v) list" where
  "dict_set [] k v = [(k, v)]"
| "dict_set ((k', v') # kvs) k v =
     (if k' = k then (k, v) # kvs else (k', v') # dict_set kvs k v)"

text \<open>The distinct elements of a list, each at its first occurrence.\<close>

definition first_seen :: "'a list \<Rightarrow> 'a list" where
  "first_seen xs = rev (remdups (rev xs))"

text \<open>
  \<open>pandas.DataFrame\<close> built from a list of dicts, at the level of what the library
  documents: the columns are the keys of the dicts in first-seen order, and a row that
  lacks a column has the missing value \<open>NaN\<close> there. \<open>isna\<close> is the library's test
  for a missing value: \<open>None\<close> or a float \<open>NaN\<close>. The rows are kept as they were
  given; what the library makes of a column that holds numbers or booleans (it chooses
  a dtype for the column and may convert the values) is not modelled here, see
  \<open>library_grouping\<close> below.
\<close>

record dataframe =
  columns :: "string list"
  rows :: "row list"

definition DataFrame :: "row list \<Rightarrow> dataframe" where
  "DataFrame data = \<lparr>columns = first_seen (concat (map (map fst) data)), rows = data\<rparr>"

definition nan :: "64 word" where
  "nan = 0x7FF8000000000000"

fun isna :: "pyval \<Rightarrow> bool" where
  "isna PNone = True"
| "isna (PFloat f) = (0x7FF0000000000000 < (f AND 0x7FFFFFFFFFFFFFFF))"
| "isna _ = False"

definition cell :: "row \<Rightarrow> string \<Rightarrow> pyval" where
  "cell r c = (case map_of r c of None \<Rightarrow> PFloat nan | Some v \<Rightarrow> v)"

definition column_values :: "dataframe \<Rightarrow> string \<Rightarrow> pyval list" where
  "column_values df c = map (\<lambda>r. cell r c) (rows df)"

text \<open>A list or a dict is not hashable and cannot be a group key.\<close>

fun hashable :: "pyval \<Rightarrow> bool" where
  "hashable (PList xs) = False"
| "hashable (PDict kvs) = False"
| "hashable _ = True"

section \<open>\<open>generate_groupby_count_dataframe\<close>\<close>

text \<open>
  \<open>df.groupby(groupby).size().reset_index(name=count_column_name)\<close>, a chain of three
  calls into the library, in the order in which they can raise.
  \<^item> \<open>groupby\<close> raises \<open>KeyError\<close> for a name that is not a column.
  \<^item> The grouping hashes the keys and raises \<open>TypeError\<close> at the first key, in row
    order, that is not hashable. It runs with the library's default \<open>dropna=True\<close>: the
    rows whose key is missing are left out of every group. For a column whose present
    values are all strings, \<open>size()\<close> gives one row per distinct string with the number
    of rows that hold it. For a column that holds a number or a boolean the library
    first chooses a dtype for the column and may convert its values (an int column with
    a missing cell becomes float), and it puts keys that are equal in Python (\<open>1\<close>,
    \<open>1.0\<close> and \<open>True\<close>) into one group; that part of the library is not translated:
    what \<open>size()\<close> gives there, from the cells of the column in row order, is the
    parameter \<open>lib\<close>.
  \<^item> \<open>reset_index(name=count_column_name)\<close> names the count column and inserts the
    keys as a column named \<open>groupby\<close>; it raises \<open>ValueError\<close> when the two names are
    the same.
  The result is the frame's two column names and its (key, count) rows; the library
  orders them by key, the model by first occurrence, and the order is used by no
  statement below.
\<close>

record groupby_count =
  value_column :: string
  count_column :: string
  counts :: "(pyval \<times> nat) list"

type_synonym library_grouping = "pyval list \<Rightarrow> error + (pyval \<times> nat) list"

definition group_keys :: "dataframe \<Rightarrow> string \<Rightarrow> pyval list" where
  "group_keys df c = filter (\<lambda>k. \<not> isna k) (column_values df c)"

definition groupby_size :: "library_grouping \<Rightarrow> dataframe \<Rightarrow> string \<Rightarrow> error + (pyval \<times> nat) list" where
  "groupby_size lib df groupby =
     (case find (\<lambda>k. \<not> hashable k) (group_keys df groupby) of
        Some k \<Rightarrow> Inl (TypeError k)
      | None \<Rightarrow>
          if list_all (\<lambda>k. py_type k = TStr) (group_keys df groupby)
          then Inr (map (\<lambda>k. (k, count_list (group_keys df groupby) k))
                     (first_seen (group_keys df groupby)))
          else lib (column_values df groupby))"

definition reset_index :: "string \<Rightarrow> (pyval \<times> nat) list \<Rightarrow> string \<Rightarrow> error + groupby_count" where
  "reset_index groupby sizes name =
     (if groupby = name then Inl (ValueError name)
      else Inr \<lparr>value_column = groupby, count_column = name, counts = sizes\<rparr>)"

definition generate_groupby_count_dataframe ::
  "library_grouping \<Rightarrow> dataframe \<Rightarrow> string \<Rightarrow> string \<Rightarrow> error + groupby_count" where
  "generate_groupby_count_dataframe lib df groupby count_column_name =
     (if groupby \<notin> set (columns df) then Inl (KeyError groupby)
      else case groupby_size lib df groupby of
        Inl e \<Rightarrow> Inl e
      | Inr sizes \<Rightarrow> reset_index groupby sizes count_column_name)"

section \<open>\<open>generate_dataframes_by_jql\<close>\<close>

text \<open>
  The two calls to the Jira client are inputs of the run, as is \<open>lib\<close>, the part of
  the library that \<open>generate_groupby_count_dataframe\<close> takes: \<open>fields()\<close> gives the
  field descriptions (each a dict with \<open>id\<close> and \<open>name\<close>), \<open>search_issues\<close> the
  issues found for a query, a field list and a limit (each a dict whose \<open>fields\<close>
  entry maps field ids to raw values).
\<close>

record jira_field =
  field_id :: string
  field_name :: string

record issue =
  issue_key :: string
  issue_fields :: "(string \<times> pyval) list"

record jira_api =
  api_fields :: "jira_field list"
  api_search_issues :: "string \<Rightarrow> string list \<Rightarrow> int \<Rightarrow> issue list"

text \<open>\<open>{i['id']: i for i in self.jira_api.fields()}\<close>: a later description of an id wins.\<close>

definition all_jira_fields :: "jira_field list \<Rightarrow> (string \<rightharpoonup> jira_field)" where
  "all_jira_fields fs = fold (\<lambda>i m. m(field_id i \<mapsto> i)) fs Map.empty"

text \<open>
  The dict comprehension over \<open>issue['fields'].items()\<close>, one pair at a time: the key
  expression \<open>all_jira_fields[k]['name']\<close> is evaluated first and raises \<open>KeyError\<close>
  for an id that is not in the catalog, then \<open>extract_value(v)\<close>; the first exception
  ends the whole run.
\<close>

fun issue_row :: "(string \<rightharpoonup> jira_field) \<Rightarrow> (string \<times> pyval) list \<Rightarrow> row \<Rightarrow> error + row" where
  "issue_row cat [] acc = Inr acc"
| "issue_row cat ((k, v) # kvs) acc =
     (case cat k of
        None \<Rightarrow> Inl (KeyError k)
      | Some f \<Rightarrow>
          (case extract_value v of
             Inl e \<Rightarrow> Inl e
           | Inr r \<Rightarrow> issue_row cat kvs (dict_set acc (field_name f) r)))"

text \<open>The loop over the issues, appending one row each to the list \<open>df\<close>.\<close>

fun issue_rows :: "(string \<rightharpoonup> jira_field) \<Rightarrow> issue list \<Rightarrow> row list \<Rightarrow> error + row list" where
  "issue_rows cat [] df = Inr df"
| "issue_rows cat (i # rest) df =
     (case issue_row cat (issue_fields i) [] of
        Inl e \<Rightarrow> Inl e
      | Inr r \<Rightarrow> issue_rows cat rest (df @ [r]))"

text \<open>The loop over \<open>df.columns\<close>, filling the dict \<open>groupby_dfs\<close>.\<close>

fun groupby_loop ::
  "library_grouping \<Rightarrow> dataframe \<Rightarrow> string list \<Rightarrow> (string \<times> groupby_count) list
     \<Rightarrow> error + (string \<times> groupby_count) list" where
  "groupby_loop lib df [] groupby_dfs = Inr groupby_dfs"
| "groupby_loop lib df (i # cols) groupby_dfs =
     (case generate_groupby_count_dataframe lib df i ''Count'' of
        Inl e \<Rightarrow> Inl e
      | Inr g \<Rightarrow> groupby_loop lib df cols (dict_set groupby_dfs i g))"

definition generate_dataframes_by_jql ::
  "library_grouping \<Rightarrow> jira_api \<Rightarrow> string \<Rightarrow> string list \<Rightarrow> int
     \<Rightarrow> error + (dataframe \<times> (string \<times> groupby_count) list)" where
  "generate_dataframes_by_jql lib api jql fields' jql_search_limit =
     (case issue_rows (all_jira_fields (api_fields api))
             (api_search_issues api jql fields' jql_search_limit) [] of
        Inl e \<Rightarrow> Inl e
      | Inr data \<Rightarrow>
          (case groupby_loop lib (DataFrame data) (columns (DataFrame data)) [] of
             Inl e \<Rightarrow> Inl e
           | Inr groupby_dfs \<Rightarrow> Inr (DataFrame data, groupby_dfs)))"


section \<open>Example runs\<close>

text \<open>
  No example below has a column that holds a number or a boolean, so none of them
  calls the parameter \<open>lib\<close>; this value stands for it.
\<close>

definition lib_not_called :: library_grouping where
  "lib_not_called cells = Inl (LibraryError ''not called'')"

text \<open>
  The end-to-end scenario of the specification: the fields \<open>status\<close> and \<open>assignee\<close>,
  and two issues, the second one unassigned.
\<close>

definition scenario_api :: jira_api where
  "scenario_api =
     \<lparr>api_fields = [\<lparr>field_id = ''status'', field_name = ''Status''\<rparr>,
                    \<lparr>field_id = ''assignee'', field_name = ''Assignee''\<rparr>],
      api_search_issues = (\<lambda>jql fields' jql_search_limit.
        [\<lparr>issue_key = ''A-1'',
          issue_fields = [(''status'', PDict [(''name'', PStr ''Open'')]),
                          (''assignee'', PDict [(''name'', PStr ''Alice'')])]\<rparr>,
         \<lparr>issue_key = ''A-2'',
          issue_fields = [(''status'', PDict [(''name'', PStr ''Open'')]),
                          (''assignee'', PNone)]\<rparr>])\<rparr>"



section \<open>Equations of \<open>extract_value\<close> by shape\<close>

declare extract_value.simps(1) [simp del]

lemma extract_value_PDict:
  "extract_value (PDict kvs) =
     (if truthy (dict_get (PDict kvs) ''value'') then dict_index (PDict kvs) ''value''
      else if truthy (dict_get (PDict kvs) ''name'') then dict_index (PDict kvs) ''name''
      else Inl (Unsupported (PDict kvs)))"
  by (simp add: extract_value.simps(1))

lemma extract_value_PList:
  "extract_value (PList xs) =
     (case extract_values xs of Inl e \<Rightarrow> Inl e | Inr rs \<Rightarrow> str_join '', '' rs)"
  by (simp add: extract_value.simps(1))


lemma extract_values_strs:
  "list_all2 (\<lambda>x s. extract_value x = Inr (PStr s)) xs ss
     \<Longrightarrow> extract_values xs = Inr (map PStr ss)"
  by (induction xs ss rule: list_all2_induct) simp_all

lemma str_items_strs: "str_items (map PStr ss) = Inr ss"
  by (induction ss) simp_all

lemma extract_values_all:
  "list_all2 (\<lambda>x r. extract_value x = Inr r) xs rs \<Longrightarrow> extract_values xs = Inr rs"
  by (induction xs rs rule: list_all2_induct) simp_all

lemma str_items_first_non_str:
  "find (\<lambda>r. py_type r \<noteq> TStr) rs = Some v \<Longrightarrow> str_items rs = Inl (TypeError v)"
proof (induction rs)
  case Nil
  then show ?case by simp
next
  case (Cons r rs)
  then show ?case by (cases r) (auto split: if_splits)
qed


section \<open>Properties of \<open>extract_value\<close>\<close>

text \<open>
  C1. The claim: for the null input, \<open>extract_value\<close> returns the missing-value marker
  \<open>"N/A"\<close>. The code names the marker in the \<open>None\<close> branch but does not return it: the
  call on \<open>None\<close> yields \<open>None\<close>.
\<close>

theorem extract_value_None_yields_None: "extract_value PNone = Inr PNone"
  by (simp add: extract_value.simps(1))

text \<open>
  C3, as amended. When every element of a list extracts to a string, the list extracts
  to those strings joined with \<open>", "\<close> in the original order; for three elements
  \<open>a\<close>, \<open>b\<close>, \<open>c\<close> that is \<open>sa + ", " + sb + ", " + sc\<close>; the empty list extracts to
  the empty string. When every element extracts and one of the results is not a
  string, the list is not joined: \<open>str.join\<close> raises \<open>TypeError\<close> at the first such
  result.
\<close>

theorem extract_value_list_join:
  "(list_all2 (\<lambda>x s. extract_value x = Inr (PStr s)) xs ss
      \<longrightarrow> extract_value (PList xs) = Inr (PStr (intersperse '', '' ss)))
   \<and> (extract_value a = Inr (PStr sa) \<and> extract_value b = Inr (PStr sb)
        \<and> extract_value c = Inr (PStr sc)
      \<longrightarrow> extract_value (PList [a, b, c]) = Inr (PStr (sa @ '', '' @ sb @ '', '' @ sc)))
   \<and> extract_value (PList []) = Inr (PStr [])
   \<and> (list_all2 (\<lambda>x r. extract_value x = Inr r) ys rs
        \<and> find (\<lambda>r. py_type r \<noteq> TStr) rs = Some v
      \<longrightarrow> extract_value (PList ys) = Inl (TypeError v))"
proof (intro conjI impI)
  assume "list_all2 (\<lambda>x r. extract_value x = Inr r) ys rs
        \<and> find (\<lambda>r. py_type r \<noteq> TStr) rs = Some v"
  then have "extract_values ys = Inr rs" and "str_items rs = Inl (TypeError v)"
    by (simp_all add: extract_values_all str_items_first_non_str)
  then show "extract_value (PList ys) = Inl (TypeError v)"
    by (simp add: extract_value_PList str_join_def)
next
  assume "list_all2 (\<lambda>x s. extract_value x = Inr (PStr s)) xs ss"
  then show "extract_value (PList xs) = Inr (PStr (intersperse '', '' ss))"
    by (simp add: extract_value_PList extract_values_strs str_join_def str_items_strs)
next
  assume "extract_value a = Inr (PStr sa) \<and> extract_value b = Inr (PStr sb)
        \<and> extract_value c = Inr (PStr sc)"
  then show "extract_value (PList [a, b, c]) = Inr (PStr (sa @ '', '' @ sb @ '', '' @ sc))"
    by (simp add: extract_value_PList str_join_def)
next
  show "extract_value (PList []) = Inr (PStr [])"
    by (simp add: extract_value_PList str_join_def)
qed

text \<open>
  C3, witness: a string, a named object and a nested list, each extracting to a string;
  and a string followed by a float (1.5), which extracts to itself.
\<close>

theorem extract_value_list_join_witness:
  "extract_value (PList [PStr ''a'', PDict [(''name'', PStr ''b'')], PList [PStr ''c'', PStr ''d'']])
     = Inr (PStr ''a, b, c, d'')
   \<and> extract_value (PList []) = Inr (PStr [])
   \<and> extract_value (PList [PStr ''a'', PFloat 0x3FF8000000000000])
     = Inl (TypeError (PFloat 0x3FF8000000000000))"
proof -
  have f: "extract_value (PFloat 0x3FF8000000000000) = Inr (PFloat 0x3FF8000000000000)"
    by (simp add: extract_value.simps(1))
  have a: "extract_value (PStr ''a'') = Inr (PStr ''a'')"
    by (simp add: extract_value.simps(1))
  have b: "extract_value (PDict [(''name'', PStr ''b'')]) = Inr (PStr ''b'')"
    by (simp add: extract_value_PDict dict_get_def dict_index_def)
  have c: "extract_value (PList [PStr ''c'', PStr ''d'']) = Inr (PStr ''c, d'')"
    by (simp add: extract_value_PList extract_value.simps(1) str_join_def)
  from a b c f
    extract_value_list_join
      [of "[PStr ''a'', PDict [(''name'', PStr ''b'')], PList [PStr ''c'', PStr ''d'']]"
        "[''a'', ''b'', ''c, d'']" _ _ _ _ _ _
        "[PStr ''a'', PFloat 0x3FF8000000000000]" "[PStr ''a'', PFloat 0x3FF8000000000000]"
        "PFloat 0x3FF8000000000000"]
  show ?thesis by simp
qed

text \<open>
  C3, counterexample to the claim as stated (for every sequence of extractable values):
  the integers 1, 2 and 3 are each extractable, and the list of them raises the
  \<open>TypeError\<close> of \<open>str.join\<close> instead of giving a joined string.
\<close>

theorem extract_value_list_of_ints_raises:
  "extract_value (PInt 1) = Inr (PInt 1) \<and> extract_value (PInt 2) = Inr (PInt 2)
   \<and> extract_value (PInt 3) = Inr (PInt 3)
   \<and> extract_value (PList [PInt 1, PInt 2, PInt 3]) = Inl (TypeError (PInt 1))"
  by (simp add: extract_value_PList extract_value.simps(1) str_join_def)

text \<open>
  C4, as amended. For a truthy \<open>x\<close> stored under \<open>"value"\<close>, the mapping extracts to
  \<open>x\<close>, whatever else it holds (so \<open>"value"\<close> goes before \<open>"name"\<close>); for a truthy
  \<open>y\<close> stored under \<open>"name"\<close>, it extracts to \<open>y\<close> when there is no truthy entry under
  \<open>"value"\<close>.
\<close>

theorem extract_value_option_name:
  "(truthy x \<and> map_of kvs ''value'' = Some x \<longrightarrow> extract_value (PDict kvs) = Inr x)
   \<and> (truthy y \<and> map_of kvs ''name'' = Some y \<and> \<not> truthy (dict_get (PDict kvs) ''value'')
        \<longrightarrow> extract_value (PDict kvs) = Inr y)"
  by (auto simp: extract_value_PDict dict_get_def dict_index_def)

text \<open>C4, witness: an option object, a named object, and a mapping with both keys.\<close>

theorem extract_value_option_name_witness:
  "extract_value (PDict [(''value'', PStr ''High'')]) = Inr (PStr ''High'')
   \<and> extract_value (PDict [(''name'', PStr ''Open'')]) = Inr (PStr ''Open'')
   \<and> extract_value (PDict [(''name'', PStr ''Open''), (''value'', PStr ''High'')])
       = Inr (PStr ''High'')"
  using extract_value_option_name [of "PStr ''High''" "[(''value'', PStr ''High'')]" PNone]
    extract_value_option_name [of PNone "[(''name'', PStr ''Open'')]" "PStr ''Open''"]
    extract_value_option_name
      [of "PStr ''High''" "[(''name'', PStr ''Open''), (''value'', PStr ''High'')]" PNone]
  by (simp add: dict_get_def)

text \<open>
  C4, counterexample to the claim as stated (for every \<open>x\<close>): with \<open>x = 0\<close> the
  mapping \<open>{"value": 0}\<close> does not extract to 0 but raises, and with \<open>x = ""\<close> next to
  a name the name is returned, not the value.
\<close>

theorem extract_value_falsy_value_counterexample:
  "extract_value (PDict [(''value'', PInt 0)]) = Inl (Unsupported (PDict [(''value'', PInt 0)]))
   \<and> extract_value (PDict [(''value'', PStr []), (''name'', PStr ''Open'')]) = Inr (PStr ''Open'')"
  by (simp add: extract_value_PDict dict_get_def dict_index_def)




text \<open>
  C7. For every raw value \<open>v\<close> whose type is \<open>str\<close>, \<open>int\<close> or \<open>float\<close>,
  \<open>extract_value\<close> returns \<open>v\<close> unchanged.
\<close>

theorem extract_value_scalar_identity:
  "py_type v \<in> {TStr, TInt, TFloat} \<Longrightarrow> extract_value v = Inr v"
  by (cases v) (simp_all add: extract_value.simps(1))

text \<open>C7, witness: a string, an integer and the float 1.5.\<close>

theorem extract_value_scalar_identity_witness:
  "extract_value (PStr ''Open'') = Inr (PStr ''Open'') \<and> extract_value (PInt 42) = Inr (PInt 42)
   \<and> extract_value (PFloat 0x3FF8000000000000) = Inr (PFloat 0x3FF8000000000000)"
  using extract_value_scalar_identity [of "PStr ''Open''"]
    extract_value_scalar_identity [of "PInt 42"]
    extract_value_scalar_identity [of "PFloat 0x3FF8000000000000"]
  by simp

text \<open>
  C8. A raw value of any other shape (not \<open>None\<close>, not a \<open>str\<close>, \<open>int\<close> or \<open>float\<close>,
  not a mapping with a truthy \<open>"value"\<close> or \<open>"name"\<close> entry, not a list) makes
  \<open>extract_value\<close> raise its exception, which is built from the offending value.
\<close>

theorem extract_value_unsupported_raises:
  assumes "field \<noteq> PNone"
    and "py_type field \<notin> {TStr, TInt, TFloat}"
    and "\<not> (py_type field = TDict \<and> truthy (dict_get field ''value''))"
    and "\<not> (py_type field = TDict \<and> truthy (dict_get field ''name''))"
    and "py_type field \<noteq> TList"
  shows "extract_value field = Inl (Unsupported field)"
  using assms by (auto simp: extract_value.simps(1))

text \<open>C8, witness: the mapping \<open>{"other": 1}\<close>, with neither key.\<close>

theorem extract_value_unsupported_raises_witness:
  "extract_value (PDict [(''other'', PInt 1)]) = Inl (Unsupported (PDict [(''other'', PInt 1)]))"
  using extract_value_unsupported_raises [of "PDict [(''other'', PInt 1)]"]
  by (simp add: dict_get_def)

text \<open>
  C10. A boolean is not taken as a scalar: the scalar branch tests the exact type
  against \<open>str\<close>, \<open>int\<close> and \<open>float\<close>, the type of a boolean is \<open>bool\<close>, and
  \<open>extract_value\<close> raises its unsupported-value exception for \<open>True\<close> and \<open>False\<close>.
\<close>

theorem extract_value_bool_unsupported:
  "py_type (PBool b) \<notin> set [TStr, TInt, TFloat]
   \<and> extract_value (PBool b) = Inl (Unsupported (PBool b))"
  by (simp add: extract_value.simps(1))

section \<open>Properties of \<open>generate_groupby_count_dataframe\<close>\<close>










section \<open>Properties of \<open>generate_dataframes_by_jql\<close>\<close>

lemma map_of_dict_set: "map_of (dict_set kvs k v) = (map_of kvs)(k \<mapsto> v)"
  by (induction kvs) (auto simp: fun_eq_iff)

lemma fst_set_dict_set: "fst ` set (dict_set kvs k v) = insert k (fst ` set kvs)"
  by (simp add: dom_map_of_conv_image_fst [symmetric] map_of_dict_set)

lemma groupby_loop_entries:
  "groupby_loop lib df cols acc = Inr res \<Longrightarrow>
     (\<forall>c\<in>set cols. \<exists>g. map_of res c = Some g
          \<and> generate_groupby_count_dataframe lib df c ''Count'' = Inr g)
     \<and> (\<forall>c. c \<notin> set cols \<longrightarrow> map_of res c = map_of acc c)
     \<and> fst ` set res = set cols \<union> fst ` set acc"
proof (induction cols arbitrary: acc)
  case Nil
  then show ?case by simp
next
  case (Cons i cols)
  from Cons.prems obtain g where
    g: "generate_groupby_count_dataframe lib df i ''Count'' = Inr g"
    and r: "groupby_loop lib df cols (dict_set acc i g) = Inr res"
    by (auto split: sum.splits)
  from Cons.IH [OF r] have
    a: "\<forall>c\<in>set cols. \<exists>g. map_of res c = Some g
          \<and> generate_groupby_count_dataframe lib df c ''Count'' = Inr g"
    and b: "\<forall>c. c \<notin> set cols \<longrightarrow> map_of res c = map_of (dict_set acc i g) c"
    and d: "fst ` set res = set cols \<union> fst ` set (dict_set acc i g)"
    by blast+
  have "\<exists>g'. map_of res c = Some g' \<and> generate_groupby_count_dataframe lib df c ''Count'' = Inr g'"
    if "c \<in> set (i # cols)" for c
  proof (cases "c \<in> set cols")
    case True
    with a show ?thesis by blast
  next
    case False
    with that have "c = i" by simp
    with False b g show ?thesis by (simp add: map_of_dict_set)
  qed
  moreover have "\<forall>c. c \<notin> set (i # cols) \<longrightarrow> map_of res c = map_of acc c"
    using b by (simp add: map_of_dict_set)
  moreover have "fst ` set res = set (i # cols) \<union> fst ` set acc"
    using d by (auto simp: fst_set_dict_set)
  ultimately show ?case by blast
qed

lemma scenario_run:
  "generate_dataframes_by_jql lib scenario_api ''project = A'' [''status'', ''assignee''] 100 =
   Inr (\<lparr>columns = [''Status'', ''Assignee''],
         rows = [[(''Status'', PStr ''Open''), (''Assignee'', PStr ''Alice'')],
                 [(''Status'', PStr ''Open''), (''Assignee'', PNone)]]\<rparr>,
        [(''Status'', \<lparr>value_column = ''Status'', count_column = ''Count'',
                      counts = [(PStr ''Open'', 2)]\<rparr>),
         (''Assignee'', \<lparr>value_column = ''Assignee'', count_column = ''Count'',
                      counts = [(PStr ''Alice'', 1)]\<rparr>)])"
  by (simp add: scenario_api_def generate_dataframes_by_jql_def all_jira_fields_def
      extract_value_PDict extract_value.simps(1) dict_get_def dict_index_def
      DataFrame_def first_seen_def generate_groupby_count_dataframe_def groupby_size_def
      reset_index_def group_keys_def column_values_def cell_def)

text \<open>
  C6. For every run that returns, the keys of the returned aggregate mapping are the
  columns of the returned dataset, and the entry of each column is what
  \<open>generate_groupby_count_dataframe\<close> computes, on its own, from that same returned
  dataset and that column (so the two have the same pairs).
\<close>

theorem pipeline_aggregates_consistent:
  assumes "generate_dataframes_by_jql lib api jql fields' jql_search_limit = Inr (df, groupby_dfs)"
  shows "fst ` set groupby_dfs = set (columns df)
     \<and> (\<forall>c\<in>set (columns df). \<exists>g. map_of groupby_dfs c = Some g
          \<and> generate_groupby_count_dataframe lib df c ''Count'' = Inr g)"
proof -
  from assms obtain data where
    df: "df = DataFrame data"
    and l: "groupby_loop lib df (columns df) [] = Inr groupby_dfs"
    by (auto simp: generate_dataframes_by_jql_def split: sum.splits)
  from groupby_loop_entries [OF l] show ?thesis by simp
qed

text \<open>C6, witness: the end-to-end scenario.\<close>

theorem pipeline_aggregates_consistent_witness:
  "fst ` set [(''Status'', \<lparr>value_column = ''Status'', count_column = ''Count'',
                      counts = [(PStr ''Open'', 2)]\<rparr>),
         (''Assignee'', \<lparr>value_column = ''Assignee'', count_column = ''Count'',
                      counts = [(PStr ''Alice'', 1)]\<rparr>)] = {''Status'', ''Assignee''}
   \<and> generate_groupby_count_dataframe lib_not_called
        \<lparr>columns = [''Status'', ''Assignee''],
         rows = [[(''Status'', PStr ''Open''), (''Assignee'', PStr ''Alice'')],
                 [(''Status'', PStr ''Open''), (''Assignee'', PNone)]]\<rparr> ''Status'' ''Count''
      = Inr \<lparr>value_column = ''Status'', count_column = ''Count'', counts = [(PStr ''Open'', 2)]\<rparr>"
  using pipeline_aggregates_consistent [OF scenario_run [of lib_not_called]] by simp









end
